theory Spec2Isabelle
  imports Complex_Main
begin

section \<open>Configuration (config.py)\<close>

text \<open>
  The class \<open>Config\<close> of config.py, restricted to the options the request handlers of
  routes.py read through \<open>app.config\<close>. The numeric options are Python ints.
\<close>

record config =
  UPLOADS_FOLDER_PATH :: string
  ALLOWED_EXTENSIONS :: "string set"
  COOLDOWN_MS :: int
  UPLOAD_LIMIT :: int
  UPLOAD_WINDOW :: int
  MAX_LOGIN_ATTEMPTS :: int
  LOGIN_COOLDOWN :: int

definition Config :: config where
  "Config =
     \<lparr>UPLOADS_FOLDER_PATH = ''uploads'',
      ALLOWED_EXTENSIONS = {''.jpeg'', ''.jpg'', ''.gif'', ''.png'', ''.webp''},
      COOLDOWN_MS = 1000,
      UPLOAD_LIMIT = 5,
      UPLOAD_WINDOW = 60,
      MAX_LOGIN_ATTEMPTS = 5,
      LOGIN_COOLDOWN = 3600\<rparr>"

section \<open>Data model (routes.py, database.py)\<close>

text \<open>
  Clock readings: \<open>time.time()\<close> returns a Python float. Timestamps are modelled as
  real numbers, so floating-point rounding is outside the model; comparisons,
  differences and the truncation \<open>int(...)\<close> are as the code writes them.
\<close>

type_synonym timestamp = real

text \<open>Python's \<open>int(x)\<close> on a float: truncation toward zero.\<close>

definition py_int :: "real \<Rightarrow> int" where
  "py_int x = (if 0 \<le> x then \<lfloor>x\<rfloor> else \<lceil>x\<rceil>)"

text \<open>
  The key of \<open>last_post_times\<close>: \<open>session["user_id"]\<close> (an int) when logged in,
  \<open>request.remote_addr\<close> (a str) otherwise. A Python int never equals a str, so the two
  kinds of key never collide in the dict.
\<close>

datatype identity = UserId int | RemoteAddr string

text \<open>A value of \<open>login_attempts\<close>: the dict \<open>{"attempts": ..., "last_attempt": ...}\<close>.\<close>

record attempt_record =
  attempts :: int
  last_attempt :: timestamp

text \<open>Rows of the tables Users and Posts, with the columns the handlers below use.\<close>

record user_row =
  row_id :: int
  username :: string
  first_name :: string
  last_name :: string
  password :: string

record post_row =
  u_id :: int
  content :: string
  image :: string

text \<open>
  The process state: the three module-level dicts of routes.py, the two tables and the
  uploads folder (file path to file content).
\<close>

record world =
  last_post_times :: "identity \<rightharpoonup> timestamp"
  upload_history :: "int \<rightharpoonup> timestamp list"
  login_attempts :: "string \<rightharpoonup> attempt_record"
  users :: "user_row list"
  posts :: "post_row list"
  uploads :: "string \<rightharpoonup> string"

text \<open>
  The uploaded file \<open>post_form.image.data\<close>, when the form has one: \<open>image_present\<close>
  is its truth value (a file storage is true when it carries a file name),
  \<open>image_filename\<close> the result of \<open>secure_filename(post_form.image.data.filename)\<close>, which
  is empty when no character of the name survives, \<open>image_suffix\<close> is
  \<open>Path(filename).suffix\<close> and \<open>image_bytes\<close> the uploaded content.
\<close>

record file_storage =
  image_present :: bool
  image_filename :: string
  image_suffix :: string
  image_bytes :: string

text \<open>
  What a handler reads from the request context. \<open>session\<close> is \<open>session.get("user_id")\<close>.
  The form fields are the \<open>.data\<close> of the fields of IndexForm (login, register) and
  PostForm; \<open>post_image\<close> is \<open>post_form.image.data\<close>, which is \<open>None\<close> when the request
  carries no file for the field.
\<close>

record request =
  http_method :: string
  remote_addr :: string
  session :: "int option"
  login_username :: string
  login_password :: string
  login_submit :: bool
  register_username :: string
  register_password :: string
  register_first_name :: string
  register_last_name :: string
  register_submit :: bool
  post_content :: string
  post_image :: "file_storage option"

text \<open>
  Responses. The two JSON bodies carry the number their f-string formats:
  \<open>{"error": f"Rate limit: wait {wait_time}ms before next POST."}\<close> and
  \<open>{"error": "Too many uploads", "message": f"Limit is {upload_limit} uploads per
  {upload_limit} seconds."}\<close>.
\<close>

datatype json_body = RateLimit int | TooManyUploads int

text \<open>The exceptions the view functions raise; an uncaught one is a 500 response.\<close>

datatype py_error = KeyError | AttributeError | IsADirectoryError

datatype response =
    Redirect string "string option"
  | Render string
  | Json json_body int
  | ServerError py_error

text \<open>
  The two functions of \<open>werkzeug.security\<close> the handlers call. They belong to a library,
  so the handlers take them as a parameter.
\<close>

record werkzeug =
  check_password_hash :: "string \<Rightarrow> string \<Rightarrow> bool"
  generate_password_hash :: "string \<Rightarrow> string"

text \<open>
  What a request reads from outside the process state: the value of \<open>time.time()\<close> in the
  \<open>before_request\<close> hook and in the view function, and the fate of the view's SQL
  \<open>INSERT\<close> (\<open>None\<close>: it raises \<open>sqlite3.Error\<close>; \<open>Some i\<close>: it succeeds and the new
  row gets id \<open>i\<close>).
\<close>

record env =
  hook_clock :: timestamp
  view_clock :: timestamp
  insert_result :: "int option"

text \<open>What a handler leaves behind: its response, the flashed messages (message, category),
  the session's \<open>user_id\<close> and the process state.\<close>

record outcome =
  response :: response
  flashes :: "(string \<times> string) list"
  session_out :: "int option"
  world_out :: world

definition reply :: "response \<Rightarrow> (string \<times> string) list \<Rightarrow> request \<Rightarrow> world \<Rightarrow> outcome" where
  "reply resp fl req w =
     \<lparr>response = resp, flashes = fl, session_out = session req, world_out = w\<rparr>"

section \<open>Database queries (database.py)\<close>

text \<open>\<open>cursor.fetchone()\<close> is the first matching row, or \<open>None\<close>.\<close>

definition get_user_data :: "user_row list \<Rightarrow> string option \<Rightarrow> int option \<Rightarrow> user_row option" where
  "get_user_data tbl uname ident =
     (case ident of
        Some i \<Rightarrow> find (\<lambda>r. row_id r = i) tbl
      | None \<Rightarrow> find (\<lambda>r. Some (username r) = uname) tbl)"

definition get_user_password :: "user_row list \<Rightarrow> string \<Rightarrow> string option" where
  "get_user_password tbl uname = map_option password (find (\<lambda>r. username r = uname) tbl)"

definition get_user_id :: "user_row list \<Rightarrow> string \<Rightarrow> int option" where
  "get_user_id tbl uname = map_option row_id (find (\<lambda>r. username r = uname) tbl)"

definition create_user ::
  "int option \<Rightarrow> string \<Rightarrow> string \<Rightarrow> string \<Rightarrow> string \<Rightarrow> user_row list
     \<Rightarrow> bool \<times> user_row list" where
  "create_user ins uname fname lname pw tbl =
     (case ins of
        None \<Rightarrow> (False, tbl)
      | Some i \<Rightarrow>
          (True, tbl @ [\<lparr>row_id = i, username = uname, first_name = fname,
                          last_name = lname, password = pw\<rparr>]))"

definition create_post ::
  "int option \<Rightarrow> int \<Rightarrow> string \<Rightarrow> string \<Rightarrow> post_row list \<Rightarrow> bool \<times> post_row list" where
  "create_post ins uid text img tbl =
     (case ins of
        None \<Rightarrow> (False, tbl)
      | Some i \<Rightarrow> (True, tbl @ [\<lparr>u_id = uid, content = text, image = img\<rparr>]))"

section \<open>The POST cooldown (rate\_limit\_post\_requests)\<close>

text \<open>Lines 46 to 49: the key is the session's user id when logged in, the remote address
  otherwise.\<close>

definition identity_of :: "request \<Rightarrow> identity" where
  "identity_of req =
     (case session req of
        Some uid \<Rightarrow> UserId uid
      | None \<Rightarrow> RemoteAddr (remote_addr req))"

text \<open>
  The \<open>before_request\<close> hook. It returns \<open>None\<close> (the request goes on to its route) or a
  response that ends the request, together with the dict \<open>last_post_times\<close> as it leaves it.
  \<open>clock\<close> is the value of \<open>time.time()\<close>.
\<close>

definition rate_limit_post_requests ::
  "config \<Rightarrow> timestamp \<Rightarrow> request \<Rightarrow> (identity \<rightharpoonup> timestamp)
     \<Rightarrow> response option \<times> (identity \<rightharpoonup> timestamp)" where
  "rate_limit_post_requests cfg clock req lpt =
     (if http_method req \<noteq> ''POST'' then (None, lpt)
      else
        let user_id = identity_of req;
            now = clock * 1000;
            last_time = (case lpt user_id of Some t \<Rightarrow> t | None \<Rightarrow> 0)
        in if now - last_time < of_int (COOLDOWN_MS cfg)
           then
             let wait_time = py_int (of_int (COOLDOWN_MS cfg) - (now - last_time))
             in (Some (Json (RateLimit wait_time) 429), lpt)
           else (None, lpt(user_id \<mapsto> now)))"

section \<open>The login and registration page (index)\<close>

text \<open>Flask-WTF's \<open>FlaskForm.is_submitted\<close>: the request has a submitting method.\<close>

definition is_submitted :: "request \<Rightarrow> bool" where
  "is_submitted req = (http_method req \<in> {''POST'', ''PUT'', ''PATCH'', ''DELETE''})"

text \<open>\<open>login_attempts.get(username, {}).get("attempts", 0)\<close>\<close>

definition get_attempts :: "(string \<rightharpoonup> attempt_record) \<Rightarrow> string \<Rightarrow> int" where
  "get_attempts la uname = (case la uname of Some r \<Rightarrow> attempts r | None \<Rightarrow> 0)"

text \<open>
  The view function \<open>index\<close>. Line 93 reads \<open>login_attempts[username]["last_attempt"]\<close>
  without a default: with no record for the username it raises \<open>KeyError\<close>, which is the
  \<open>Inl\<close> result. An empty (or missing) form field is falsy.
\<close>

definition index :: "config \<Rightarrow> werkzeug \<Rightarrow> env \<Rightarrow> request \<Rightarrow> world \<Rightarrow> py_error + outcome" where
  "index cfg lib e req w =
     (case session req of
        Some sid \<Rightarrow>
          (case get_user_data (users w) None (Some sid) of
             None \<Rightarrow> Inr (reply (Redirect ''logout'' None) [] req w)
           | Some user \<Rightarrow> Inr (reply (Redirect ''stream'' (Some (username user))) [] req w))
      | None \<Rightarrow>
          if is_submitted req \<and> login_submit req then
            if login_username req = [] \<or> login_password req = [] then
              Inr (reply (Redirect ''index'' None)
                     [(''Please fill out all fields!'', ''warning'')] req w)
            else
              let user_password = get_user_password (users w) (login_username req);
                  user_id = get_user_id (users w) (login_username req)
              in (case user_password of
                    None \<Rightarrow>
                      Inr (reply (Render ''index.html'')
                             [(''Wrong username or password!'', ''warning'')] req w)
                  | Some pw \<Rightarrow>
                      if get_attempts (login_attempts w) (login_username req)
                           \<ge> MAX_LOGIN_ATTEMPTS cfg then
                        (case login_attempts w (login_username req) of
                           None \<Rightarrow> Inl KeyError
                         | Some r \<Rightarrow>
                             if last_attempt r < view_clock e + of_int (LOGIN_COOLDOWN cfg) then
                               Inr (reply (Render ''index.html'')
                                      [(''Too many login attempts, please try again later.'',
                                        ''danger'')] req w)
                             else
                               Inr (reply (Render ''index.html'') [] req
                                      (w\<lparr>login_attempts := (login_attempts w)
                                           (login_username req \<mapsto>
                                              \<lparr>attempts = 0, last_attempt = 0\<rparr>)\<rparr>)))
                      else if \<not> check_password_hash lib pw (login_password req) then
                        Inr (reply (Render ''index.html'')
                               [(''Wrong username or password!'', ''warning'')] req w)
                      else
                        Inr \<lparr>response = Redirect ''stream'' (Some (login_username req)),
                             flashes = [], session_out = user_id, world_out = w\<rparr>)
          else if is_submitted req \<and> register_submit req then
            if register_username req = [] \<or> register_password req = []
               \<or> register_first_name req = [] \<or> register_last_name req = [] then
              Inr (reply (Redirect ''index'' None)
                     [(''Please fill out all fields!'', ''warning'')] req w)
            else
              let pw_hash = generate_password_hash lib (register_password req);
                  (ok, tbl) = create_user (insert_result e) (register_username req)
                                (register_first_name req) (register_last_name req) pw_hash
                                (users w)
              in if \<not> ok then
                   Inr (reply (Redirect ''index'' None)
                          [(''Failed to create user!'', ''warning'')] req (w\<lparr>users := tbl\<rparr>))
                 else
                   Inr (reply (Redirect ''index'' None)
                          [(''User successfully created!'', ''success'')] req
                          (w\<lparr>users := tbl\<rparr>))
          else Inr (reply (Render ''index.html'') [] req w))"

section \<open>The stream page and the upload quota (stream)\<close>

text \<open>Line 160: \<open>upload_history.get(user_id, [])\<close>.\<close>

definition history_of :: "(int \<rightharpoonup> timestamp list) \<Rightarrow> int \<Rightarrow> timestamp list" where
  "history_of hist user_id = (case hist user_id of Some ts \<Rightarrow> ts | None \<Rightarrow> [])"

text \<open>Line 161: the list comprehension that keeps the timestamps inside the window.\<close>

definition prune :: "config \<Rightarrow> timestamp \<Rightarrow> timestamp list \<Rightarrow> timestamp list" where
  "prune cfg now ts = filter (\<lambda>t. now - t < of_int (UPLOAD_WINDOW cfg)) ts"

text \<open>
  Lines 157 to 169, the upload check inside \<open>stream\<close>: the 429 response, or the dict
  \<open>upload_history\<close> with the new event recorded.
\<close>

definition upload_check ::
  "config \<Rightarrow> timestamp \<Rightarrow> int \<Rightarrow> (int \<rightharpoonup> timestamp list)
     \<Rightarrow> response + (int \<rightharpoonup> timestamp list)" where
  "upload_check cfg now user_id hist =
     (let timestamps = history_of hist user_id;
          timestamps = prune cfg now timestamps;
          upload_limit = UPLOAD_LIMIT cfg
      in if int (length timestamps) \<ge> upload_limit
         then Inl (Json (TooManyUploads upload_limit) 429)
         else Inr (hist(user_id \<mapsto> timestamps @ [now])))"

text \<open>
  The view function \<open>stream\<close>. Two of its lines raise. Line 149 reads
  \<open>post_form.image.data.filename\<close>: with no file in the form it raises \<open>AttributeError\<close>.
  Line 172 saves the file under the uploads folder of the instance path; with an empty
  secured file name the path is the uploads folder itself and \<open>save\<close> raises
  \<open>IsADirectoryError\<close>, after line 169 has recorded the upload. An uncaught exception
  ends the request with a 500 response, and what was written before it stays written.
  A saved file replaces one of the same name. The uploads folder exists and is writable.
\<close>

definition stream :: "config \<Rightarrow> env \<Rightarrow> string \<Rightarrow> request \<Rightarrow> world \<Rightarrow> outcome" where
  "stream cfg e uname req w =
     (case session req of
        None \<Rightarrow> reply (Redirect ''index'' None) [] req w
      | Some sid \<Rightarrow>
          (case get_user_data (users w) (Some uname) None of
             None \<Rightarrow>
               (case get_user_data (users w) None (Some sid) of
                  None \<Rightarrow> reply (Redirect ''index'' None) [] req w
                | Some user_data \<Rightarrow>
                    reply (Redirect ''stream'' (Some (username user_data))) [] req w)
           | Some user \<Rightarrow>
               if sid \<noteq> row_id user then
                 (case get_user_data (users w) None (Some sid) of
                    None \<Rightarrow> reply (Redirect ''index'' None) [] req w
                  | Some user_data \<Rightarrow>
                      reply (Redirect ''stream'' (Some (username user_data))) [] req w)
               else if is_submitted req then
                 (case post_image req of
                    None \<Rightarrow> reply (ServerError AttributeError) [] req w
                  | Some img \<Rightarrow>
                      let filename = image_filename img;
                          extension = image_suffix img
                      in if filename \<noteq> [] \<and> extension \<notin> ALLOWED_EXTENSIONS cfg then
                           reply (Redirect ''stream'' (Some uname))
                             [(''Illegal file extension'', ''warning'')] req w
                         else
                           (case (if image_present img then
                                    (case upload_check cfg (view_clock e) sid
                                            (upload_history w) of
                                       Inl too_many \<Rightarrow> Inl (reply too_many [] req w)
                                     | Inr hist \<Rightarrow>
                                         if filename = [] then
                                           Inl (reply (ServerError IsADirectoryError) [] req
                                                  (w\<lparr>upload_history := hist\<rparr>))
                                         else
                                           Inr (w\<lparr>upload_history := hist,
                                                  uploads := (uploads w)
                                                    (UPLOADS_FOLDER_PATH cfg @ ''/'' @ filename
                                                       \<mapsto> image_bytes img)\<rparr>))
                                  else Inr w) of
                              Inl ended \<Rightarrow> ended
                            | Inr w1 \<Rightarrow>
                                let (ok, tbl) = create_post (insert_result e) (row_id user)
                                                  (post_content req) filename (posts w1)
                                in reply (Redirect ''stream'' (Some uname))
                                     (if \<not> ok then [(''Failed to create post!'', ''warning'')]
                                      else [])
                                     req (w1\<lparr>posts := tbl\<rparr>)))
               else reply (Render ''stream.html'') [] req w))"

section \<open>A request, and a run of requests\<close>

text \<open>
  The routes. \<open>Elsewhere\<close> stands for comments, friends, profile and uploads: their view
  functions mention none of the three dicts, do not write the columns of Users and Posts
  kept here, save no file and leave the session alone; their responses are not modelled.
\<close>

datatype route = Index | Stream string | Logout | Elsewhere

text \<open>
  One request: the \<open>before_request\<close> hook first; a response of the hook ends the request,
  otherwise the view function of the route runs. An exception of the view is a 500
  response, and what was written before it stays written.
\<close>

definition handle_request :: "config \<Rightarrow> werkzeug \<Rightarrow> route \<Rightarrow> env \<Rightarrow> request \<Rightarrow> world \<Rightarrow> outcome" where
  "handle_request cfg lib rt e req w =
     (case rate_limit_post_requests cfg (hook_clock e) req (last_post_times w) of
        (Some limited, lpt) \<Rightarrow> reply limited [] req (w\<lparr>last_post_times := lpt\<rparr>)
      | (None, lpt) \<Rightarrow>
          let w1 = w\<lparr>last_post_times := lpt\<rparr>
          in (case rt of
                Index \<Rightarrow>
                  (case index cfg lib e req w1 of
                     Inl err \<Rightarrow> reply (ServerError err) [] req w1
                   | Inr out \<Rightarrow> out)
              | Stream uname \<Rightarrow> stream cfg e uname req w1
              | Logout \<Rightarrow>
                  \<lparr>response = Redirect ''index'' None, flashes = [], session_out = None,
                   world_out = w1\<rparr>
              | Elsewhere \<Rightarrow> reply (Render ''elsewhere'') [] req w1))"

text \<open>
  The process starts with the three dicts empty; the tables and the uploads folder are
  on disk and may hold anything.
\<close>

definition initial_world :: "user_row list \<Rightarrow> post_row list \<Rightarrow> (string \<rightharpoonup> string) \<Rightarrow> world" where
  "initial_world us ps fs =
     \<lparr>last_post_times = Map.empty, upload_history = Map.empty, login_attempts = Map.empty,
      users = us, posts = ps, uploads = fs\<rparr>"

fun run :: "config \<Rightarrow> werkzeug \<Rightarrow> (route \<times> env \<times> request) list \<Rightarrow> world \<Rightarrow> world" where
  "run cfg lib [] w = w"
| "run cfg lib ((rt, e, req) # evs) w =
     run cfg lib evs (world_out (handle_request cfg lib rt e req w))"

text \<open>The invariant of the upload quota: no stored sequence is longer than the limit.\<close>

definition bounded_history :: "config \<Rightarrow> (int \<rightharpoonup> timestamp list) \<Rightarrow> bool" where
  "bounded_history cfg hist = (\<forall>uid. int (length (history_of hist uid)) \<le> UPLOAD_LIMIT cfg)"

section \<open>Concrete inputs\<close>

text \<open>
  A stand-in for werkzeug's salted hashes, one registered user, and the requests and
  clock readings the examples below are evaluated at.
\<close>

definition toy_werkzeug :: werkzeug where
  "toy_werkzeug =
     \<lparr>check_password_hash = (\<lambda>pwhash pw. pwhash = ''hash:'' @ pw),
      generate_password_hash = (\<lambda>pw. ''hash:'' @ pw)\<rparr>"

definition bob :: user_row where
  "bob = \<lparr>row_id = 1, username = ''bob'', first_name = ''Bob'', last_name = ''Builder'',
          password = ''hash:secret''\<rparr>"

definition blank_request :: request where
  "blank_request =
     \<lparr>http_method = ''GET'', remote_addr = ''10.0.0.1'', session = None,
      login_username = [], login_password = [], login_submit = False,
      register_username = [], register_password = [], register_first_name = [],
      register_last_name = [], register_submit = False,
      post_content = [], post_image = None\<rparr>"

definition post_request :: request where
  "post_request = blank_request\<lparr>http_method := ''POST''\<rparr>"

definition login_request :: "string \<Rightarrow> string \<Rightarrow> request" where
  "login_request uname pw =
     blank_request\<lparr>http_method := ''POST'', login_username := uname, login_password := pw,
                   login_submit := True\<rparr>"

definition upload_request :: request where
  "upload_request =
     blank_request\<lparr>http_method := ''POST'', session := Some 1, post_content := ''hello'',
                   post_image := Some \<lparr>image_present = True, image_filename = ''cat.png'',
                                       image_suffix = ''.png'', image_bytes = ''PNG''\<rparr>\<rparr>"

definition at_time :: "timestamp \<Rightarrow> env" where
  "at_time t = \<lparr>hook_clock = t, view_clock = t, insert_result = Some 1\<rparr>"

text \<open>A process state in which bob's record has the given count and time of last attempt.\<close>

definition bob_world :: "int \<Rightarrow> timestamp \<Rightarrow> world" where
  "bob_world n t =
     (initial_world [bob] [] Map.empty)
       \<lparr>login_attempts := [''bob'' \<mapsto> \<lparr>attempts = n, last_attempt = t\<rparr>]\<rparr>"

text \<open>A process state in which bob (user id 1) has five uploads on record.\<close>

definition quota_world :: world where
  "quota_world =
     (initial_world [bob] [] Map.empty)
       \<lparr>upload_history :=
          [1 \<mapsto> [1700000000, 1700000010, 1700000020, 1700000030, 1700000040]]\<rparr>"

text \<open>A process state in which bob was admitted by the cooldown gate at 1700000000 s.\<close>

definition cooled_world :: world where
  "cooled_world =
     (initial_world [bob] [] Map.empty)
       \<lparr>last_post_times := [RemoteAddr ''10.0.0.1'' \<mapsto> 1700000000000]\<rparr>"

text \<open>Five login submissions for bob with a wrong password, two seconds apart.\<close>

definition failed_logins :: "(route \<times> env \<times> request) list" where
  "failed_logins =
     [(Index, at_time 1700000000, login_request ''bob'' ''wrong''),
      (Index, at_time 1700000002, login_request ''bob'' ''wrong''),
      (Index, at_time 1700000004, login_request ''bob'' ''wrong''),
      (Index, at_time 1700000006, login_request ''bob'' ''wrong''),
      (Index, at_time 1700000008, login_request ''bob'' ''wrong'')]"

text \<open>Five uploads by bob, at 0, 10, 20, 30 and 40 seconds after 1700000000.\<close>

definition five_uploads :: "(route \<times> env \<times> request) list" where
  "five_uploads =
     [(Stream ''bob'', at_time 1700000000, upload_request),
      (Stream ''bob'', at_time 1700000010, upload_request),
      (Stream ''bob'', at_time 1700000020, upload_request),
      (Stream ''bob'', at_time 1700000030, upload_request),
      (Stream ''bob'', at_time 1700000040, upload_request)]"

text \<open>Seven uploads by bob, at 0, 10, 20, 30, 40, 45 and 61 seconds after 1700000000.\<close>

definition uploads_run :: "(route \<times> env \<times> request) list" where
  "uploads_run =
     [(Stream ''bob'', at_time 1700000000, upload_request),
      (Stream ''bob'', at_time 1700000010, upload_request),
      (Stream ''bob'', at_time 1700000020, upload_request),
      (Stream ''bob'', at_time 1700000030, upload_request),
      (Stream ''bob'', at_time 1700000040, upload_request),
      (Stream ''bob'', at_time 1700000045, upload_request),
      (Stream ''bob'', at_time 1700000061, upload_request)]"

section \<open>Properties of the handlers\<close>

subsection \<open>The upload check\<close>

lemma py_int_nonneg: "0 \<le> x \<Longrightarrow> py_int x = \<lfloor>x\<rfloor>"
  by (simp add: py_int_def)

lemma prune_inside:
  "t \<in> set (prune cfg now ts) \<longleftrightarrow> t \<in> set ts \<and> now - of_int (UPLOAD_WINDOW cfg) < t"
  by (auto simp: prune_def)

lemma upload_check_admit:
  "int (length (prune cfg now (history_of hist uid))) < UPLOAD_LIMIT cfg \<Longrightarrow>
   upload_check cfg now uid hist = Inr (hist(uid \<mapsto> prune cfg now (history_of hist uid) @ [now]))"
  by (simp add: upload_check_def Let_def)

lemma upload_check_deny:
  "\<not> int (length (prune cfg now (history_of hist uid))) < UPLOAD_LIMIT cfg \<Longrightarrow>
   upload_check cfg now uid hist = Inl (Json (TooManyUploads (UPLOAD_LIMIT cfg)) 429)"
  by (simp add: upload_check_def Let_def)

lemma length_prune: "length (prune cfg now ts) \<le> length ts"
  by (simp add: prune_def)

lemma upload_check_Inl:
  "upload_check cfg now uid hist = Inl r \<Longrightarrow> r = Json (TooManyUploads (UPLOAD_LIMIT cfg)) 429"
  by (auto simp: upload_check_def Let_def split: if_splits)

lemma upload_check_Inr:
  "upload_check cfg now uid hist = Inr h \<Longrightarrow>
     int (length (prune cfg now (history_of hist uid))) < UPLOAD_LIMIT cfg
   \<and> h = hist(uid \<mapsto> prune cfg now (history_of hist uid) @ [now])"
  by (auto simp: upload_check_def Let_def split: if_splits)

subsection \<open>What each handler leaves alone\<close>

lemma rate_limit_denied:
  "rate_limit_post_requests cfg clock req lpt = (Some r, lpt') \<Longrightarrow>
     lpt' = lpt \<and> (\<exists>k. r = Json (RateLimit k) 429)"
  by (auto simp: rate_limit_post_requests_def Let_def split: if_splits)

lemma index_frame:
  "index cfg lib e req w = Inr out \<Longrightarrow>
     last_post_times (world_out out) = last_post_times w
   \<and> upload_history (world_out out) = upload_history w
   \<and> posts (world_out out) = posts w
   \<and> uploads (world_out out) = uploads w"
  by (auto simp: index_def reply_def Let_def split: option.splits if_splits prod.splits)

lemma index_not_json: "index cfg lib e req w = Inr out \<Longrightarrow> response out \<noteq> Json b n"
  by (auto simp: index_def reply_def Let_def split: option.splits if_splits prod.splits)

lemma index_login_attempts:
  "index cfg lib e req w = Inr out \<Longrightarrow>
     login_attempts (world_out out) = login_attempts w
   \<or> (login_attempts w (login_username req) \<noteq> None
        \<and> MAX_LOGIN_ATTEMPTS cfg \<le> get_attempts (login_attempts w) (login_username req)
        \<and> login_attempts (world_out out)
              = (login_attempts w)(login_username req \<mapsto> \<lparr>attempts = 0, last_attempt = 0\<rparr>))"
  by (auto simp: index_def reply_def Let_def
           split: option.splits if_splits prod.splits)

lemma index_too_many:
  "index cfg lib e req w = Inr out \<Longrightarrow>
   (''Too many login attempts, please try again later.'', ''danger'') \<in> set (flashes out) \<Longrightarrow>
   \<exists>u. MAX_LOGIN_ATTEMPTS cfg \<le> get_attempts (login_attempts w) u"
  by (auto simp: index_def reply_def Let_def split: option.splits if_splits prod.splits)

lemma stream_frame:
  "last_post_times (world_out (stream cfg e uname req w)) = last_post_times w
   \<and> login_attempts (world_out (stream cfg e uname req w)) = login_attempts w
   \<and> users (world_out (stream cfg e uname req w)) = users w"
  by (auto simp: stream_def reply_def Let_def split: option.splits sum.splits prod.splits)

lemma stream_flashes:
  "(''Too many login attempts, please try again later.'', ''danger'')
     \<notin> set (flashes (stream cfg e uname req w))"
  by (auto simp: stream_def reply_def Let_def split: option.splits sum.splits prod.splits)

lemma stream_denied:
  "response (stream cfg e uname req w) = Json b n \<Longrightarrow>
     world_out (stream cfg e uname req w) = w
   \<and> session_out (stream cfg e uname req w) = session req
   \<and> flashes (stream cfg e uname req w) = []
   \<and> b = TooManyUploads (UPLOAD_LIMIT cfg) \<and> n = 429"
  by (auto simp: stream_def reply_def Let_def dest: upload_check_Inl
           split: option.splits sum.splits prod.splits if_splits)

lemma stream_upload_history:
  "upload_history (world_out (stream cfg e uname req w)) = upload_history w
   \<or> (\<exists>sid. session req = Some sid
        \<and> (\<forall>b n. response (stream cfg e uname req w) \<noteq> Json b n)
        \<and> int (length (prune cfg (view_clock e) (history_of (upload_history w) sid)))
             < UPLOAD_LIMIT cfg
        \<and> upload_history (world_out (stream cfg e uname req w))
             = (upload_history w)
                 (sid \<mapsto> prune cfg (view_clock e) (history_of (upload_history w) sid)
                          @ [view_clock e]))"
  by (auto simp: stream_def reply_def Let_def dest: upload_check_Inr
           split: option.splits sum.splits prod.splits if_splits)

subsection \<open>One request\<close>

lemma handle_request_limited:
  "rate_limit_post_requests cfg (hook_clock e) req (last_post_times w) = (Some r, lpt) \<Longrightarrow>
     handle_request cfg lib rt e req w = reply r [] req w"
  by (frule rate_limit_denied) (simp add: handle_request_def)

lemma handle_request_passed:
  "rate_limit_post_requests cfg (hook_clock e) req (last_post_times w) = (None, lpt) \<Longrightarrow>
     handle_request cfg lib rt e req w =
       (case rt of
          Index \<Rightarrow>
            (case index cfg lib e req (w\<lparr>last_post_times := lpt\<rparr>) of
               Inl err \<Rightarrow> reply (ServerError err) [] req (w\<lparr>last_post_times := lpt\<rparr>)
             | Inr out \<Rightarrow> out)
        | Stream uname \<Rightarrow> stream cfg e uname req (w\<lparr>last_post_times := lpt\<rparr>)
        | Logout \<Rightarrow>
            \<lparr>response = Redirect ''index'' None, flashes = [], session_out = None,
             world_out = w\<lparr>last_post_times := lpt\<rparr>\<rparr>
        | Elsewhere \<Rightarrow> reply (Render ''elsewhere'') [] req (w\<lparr>last_post_times := lpt\<rparr>))"
  by (simp add: handle_request_def Let_def)

lemma hook_cases:
  obtains (limited) r lpt where
      "rate_limit_post_requests cfg (hook_clock e) req (last_post_times w) = (Some r, lpt)"
  | (passed) lpt where
      "rate_limit_post_requests cfg (hook_clock e) req (last_post_times w) = (None, lpt)"
  by (cases "rate_limit_post_requests cfg (hook_clock e) req (last_post_times w)") auto

lemma handle_request_login_attempts:
  "login_attempts (world_out (handle_request cfg lib rt e req w)) = login_attempts w
   \<or> (login_attempts w (login_username req) \<noteq> None
        \<and> MAX_LOGIN_ATTEMPTS cfg \<le> get_attempts (login_attempts w) (login_username req)
        \<and> login_attempts (world_out (handle_request cfg lib rt e req w))
              = (login_attempts w)(login_username req \<mapsto> \<lparr>attempts = 0, last_attempt = 0\<rparr>))"
proof (cases rule: hook_cases [of cfg e req w])
  case (limited r lpt)
  then show ?thesis by (simp add: handle_request_limited reply_def)
next
  case (passed lpt)
  show ?thesis
  proof (cases rt)
    case Index
    show ?thesis
    proof (cases "index cfg lib e req (w\<lparr>last_post_times := lpt\<rparr>)")
      case (Inl err)
      with passed Index show ?thesis by (simp add: handle_request_passed reply_def)
    next
      case (Inr out)
      from index_login_attempts [OF Inr] passed Index Inr show ?thesis
        by (simp add: handle_request_passed)
    qed
  next
    case (Stream uname)
    with passed show ?thesis by (simp add: handle_request_passed stream_frame)
  next
    case Logout
    with passed show ?thesis by (simp add: handle_request_passed)
  next
    case Elsewhere
    with passed show ?thesis by (simp add: handle_request_passed reply_def)
  qed
qed

lemma handle_request_too_many:
  assumes "(''Too many login attempts, please try again later.'', ''danger'')
             \<in> set (flashes (handle_request cfg lib rt e req w))"
  shows "\<exists>u. MAX_LOGIN_ATTEMPTS cfg \<le> get_attempts (login_attempts w) u"
proof (cases rule: hook_cases [of cfg e req w])
  case (limited r lpt)
  with assms show ?thesis by (simp add: handle_request_limited reply_def)
next
  case (passed lpt)
  show ?thesis
  proof (cases rt)
    case Index
    show ?thesis
    proof (cases "index cfg lib e req (w\<lparr>last_post_times := lpt\<rparr>)")
      case (Inl err)
      with passed Index assms show ?thesis by (simp add: handle_request_passed reply_def)
    next
      case (Inr out)
      with passed Index assms
      have "(''Too many login attempts, please try again later.'', ''danger'') \<in> set (flashes out)"
        by (simp add: handle_request_passed)
      from index_too_many [OF Inr this] show ?thesis by simp
    qed
  next
    case (Stream uname)
    with passed assms stream_flashes show ?thesis by (simp add: handle_request_passed)
  next
    case Logout
    with passed assms show ?thesis by (simp add: handle_request_passed)
  next
    case Elsewhere
    with passed assms show ?thesis by (simp add: handle_request_passed reply_def)
  qed
qed

lemma handle_request_upload_history:
  "upload_history (world_out (handle_request cfg lib rt e req w)) = upload_history w
   \<or> (\<exists>sid. int (length (prune cfg (view_clock e) (history_of (upload_history w) sid)))
               < UPLOAD_LIMIT cfg
        \<and> upload_history (world_out (handle_request cfg lib rt e req w))
             = (upload_history w)
                 (sid \<mapsto> prune cfg (view_clock e) (history_of (upload_history w) sid)
                          @ [view_clock e]))"
proof (cases rule: hook_cases [of cfg e req w])
  case (limited r lpt)
  then show ?thesis by (simp add: handle_request_limited reply_def)
next
  case (passed lpt)
  show ?thesis
  proof (cases rt)
    case Index
    show ?thesis
    proof (cases "index cfg lib e req (w\<lparr>last_post_times := lpt\<rparr>)")
      case (Inl err)
      with passed Index show ?thesis by (simp add: handle_request_passed reply_def)
    next
      case (Inr out)
      from index_frame [OF Inr] passed Index Inr show ?thesis
        by (simp add: handle_request_passed)
    qed
  next
    case (Stream uname)
    from stream_upload_history [of cfg e uname req "w\<lparr>last_post_times := lpt\<rparr>"]
      passed Stream
    show ?thesis by (auto simp: handle_request_passed)
  next
    case Logout
    with passed show ?thesis by (simp add: handle_request_passed)
  next
    case Elsewhere
    with passed show ?thesis by (simp add: handle_request_passed reply_def)
  qed
qed

lemma handle_request_json:
  assumes "response (handle_request cfg lib rt e req w) = Json b n"
  shows "(\<exists>k. b = RateLimit k) \<and> world_out (handle_request cfg lib rt e req w) = w
       \<or> b = TooManyUploads (UPLOAD_LIMIT cfg)
          \<and> (\<exists>lpt. world_out (handle_request cfg lib rt e req w) = w\<lparr>last_post_times := lpt\<rparr>)"
proof (cases rule: hook_cases [of cfg e req w])
  case (limited r lpt)
  from rate_limit_denied [OF limited] limited assms show ?thesis
    by (auto simp: handle_request_limited reply_def)
next
  case (passed lpt)
  show ?thesis
  proof (cases rt)
    case Index
    show ?thesis
    proof (cases "index cfg lib e req (w\<lparr>last_post_times := lpt\<rparr>)")
      case (Inl err)
      with passed Index assms show ?thesis by (simp add: handle_request_passed reply_def)
    next
      case (Inr out)
      from index_not_json [OF Inr] passed Index Inr assms show ?thesis
        by (simp add: handle_request_passed)
    qed
  next
    case (Stream uname)
    with passed assms
    have "response (stream cfg e uname req (w\<lparr>last_post_times := lpt\<rparr>)) = Json b n"
      by (simp add: handle_request_passed)
    from stream_denied [OF this] passed Stream show ?thesis
      by (auto simp: handle_request_passed)
  next
    case Logout
    with passed assms show ?thesis by (simp add: handle_request_passed)
  next
    case Elsewhere
    with passed assms show ?thesis by (simp add: handle_request_passed reply_def)
  qed
qed

subsection \<open>Runs\<close>

lemma run_login_attempts_empty:
  "login_attempts w = Map.empty \<Longrightarrow> login_attempts (run cfg lib evs w) = Map.empty"
proof (induction evs arbitrary: w)
  case Nil
  then show ?case by simp
next
  case (Cons ev evs)
  obtain rt e req where ev: "ev = (rt, e, req)" by (cases ev) auto
  from handle_request_login_attempts [of cfg lib rt e req w] Cons.prems
  have "login_attempts (world_out (handle_request cfg lib rt e req w)) = Map.empty"
    by auto
  from Cons.IH [OF this] ev show ?case by simp
qed

lemma handle_request_bounded:
  assumes "bounded_history cfg (upload_history w)"
  shows "bounded_history cfg (upload_history (world_out (handle_request cfg lib rt e req w)))"
  using handle_request_upload_history [of cfg lib rt e req w] assms
  by (auto simp: bounded_history_def history_of_def)

lemma run_bounded:
  "bounded_history cfg (upload_history w) \<Longrightarrow>
   bounded_history cfg (upload_history (run cfg lib evs w))"
proof (induction evs arbitrary: w)
  case Nil
  then show ?case by simp
next
  case (Cons ev evs)
  obtain rt e req where ev: "ev = (rt, e, req)" by (cases ev) auto
  from Cons.IH [OF handle_request_bounded [OF Cons.prems]] ev show ?case by simp
qed

subsection \<open>The concrete inputs, evaluated\<close>

lemma five_uploads_world:
  "run Config toy_werkzeug five_uploads (initial_world [bob] [] Map.empty)
     = \<lparr>last_post_times = [UserId 1 \<mapsto> 1700000040000],
        upload_history =
          [1 \<mapsto> [1700000000, 1700000010, 1700000020, 1700000030, 1700000040]],
        login_attempts = Map.empty,
        users = [bob],
        posts = replicate 5 \<lparr>u_id = 1, content = ''hello'', image = ''cat.png''\<rparr>,
        uploads = [''uploads/cat.png'' \<mapsto> ''PNG'']\<rparr>"
  by (simp add: handle_request_def rate_limit_post_requests_def identity_of_def py_int_def
      stream_def is_submitted_def get_user_data_def upload_check_def history_of_def prune_def
      create_post_def reply_def Let_def Config_def toy_werkzeug_def bob_def blank_request_def
      upload_request_def at_time_def initial_world_def five_uploads_def numeral_eq_Suc)

section \<open>The claims\<close>

subsection \<open>Login attempts are never counted\<close>

text \<open>
  Claim C1: every failed password check during a login submission adds one to the
  username's attempts count and sets its last\_attempt to the current time, so that
  MAX\_LOGIN\_ATTEMPTS consecutive failures leave the username locked.

  The code does not do this. The branch of a failed password check (lines 100 and 101)
  only flashes a warning; nothing in routes.py ever increments \<open>attempts\<close> or stores a
  time in \<open>last_attempt\<close>, although line 92 compares the count with MAX\_LOGIN\_ATTEMPTS.
  Evaluated: one failed login for the registered user bob leaves the process state as it
  was; after five failed logins the dict \<open>login_attempts\<close> is still empty and bob's
  count reads 0 where the claim says 5; and a sixth submission with the right password
  is let in.
\<close>

theorem failed_logins_are_not_counted:
  "index Config toy_werkzeug (at_time 1700000000) (login_request ''bob'' ''wrong'')
     (initial_world [bob] [] Map.empty)
     = Inr \<lparr>response = Render ''index.html'',
            flashes = [(''Wrong username or password!'', ''warning'')],
            session_out = None,
            world_out = initial_world [bob] [] Map.empty\<rparr>
   \<and> login_attempts (run Config toy_werkzeug failed_logins (initial_world [bob] [] Map.empty))
     = Map.empty
   \<and> get_attempts
       (login_attempts (run Config toy_werkzeug failed_logins (initial_world [bob] [] Map.empty)))
       ''bob'' = 0
   \<and> response (handle_request Config toy_werkzeug Index (at_time 1700000010)
                 (login_request ''bob'' ''secret'')
                 (run Config toy_werkzeug failed_logins (initial_world [bob] [] Map.empty)))
     = Redirect ''stream'' (Some ''bob'')"
  by (simp add: handle_request_def rate_limit_post_requests_def identity_of_def py_int_def
      index_def is_submitted_def get_user_password_def get_user_id_def get_attempts_def
      reply_def Let_def Config_def toy_werkzeug_def bob_def blank_request_def
      login_request_def at_time_def initial_world_def failed_logins_def)

subsection \<open>The lockout comparison\<close>

text \<open>
  Claim C3: for a username whose record has attempts at or above MAX\_LOGIN\_ATTEMPTS
  and \<open>last_attempt \<le> now\<close>, with LOGIN\_COOLDOWN positive, the comparison
  \<open>last_attempt < now + LOGIN_COOLDOWN\<close> is true: the login attempt is denied with the
  too-many-attempts warning, the branch that resets attempts is not taken, and the
  lockout does not expire however late \<open>now\<close> is.

  The login attempt is a login submission with both fields filled in, from a client
  that is not logged in, for a username of the table Users: these are the submissions
  for which line 92 is evaluated at all. The record, and so the whole process state, is
  left as it was, for every clock reading at or after \<open>last_attempt\<close>.
\<close>

theorem lockout_never_expires:
  assumes "session req = None"
    and "is_submitted req" and "login_submit req"
    and "login_username req \<noteq> []" and "login_password req \<noteq> []"
    and "get_user_password (users w) (login_username req) = Some pw"
    and "login_attempts w (login_username req) = Some r"
    and "MAX_LOGIN_ATTEMPTS cfg \<le> attempts r"
    and "last_attempt r \<le> view_clock e"
    and "0 < LOGIN_COOLDOWN cfg"
  shows "last_attempt r < view_clock e + of_int (LOGIN_COOLDOWN cfg)
       \<and> index cfg lib e req w =
           Inr \<lparr>response = Render ''index.html'',
                flashes = [(''Too many login attempts, please try again later.'', ''danger'')],
                session_out = None, world_out = w\<rparr>"
  using assms by (simp add: index_def get_attempts_def reply_def)

text \<open>
  Claim C3 at a concrete input: bob, locked at 1700000000, submits the right password
  100000000 s (more than three years) later and is still denied.
\<close>

theorem lockout_never_expires_witness:
  "MAX_LOGIN_ATTEMPTS Config \<le> 5 \<and> 0 < LOGIN_COOLDOWN Config
   \<and> (1700000000 :: real) < 1800000000 + of_int (LOGIN_COOLDOWN Config)
   \<and> index Config toy_werkzeug (at_time 1800000000) (login_request ''bob'' ''secret'')
       (bob_world 5 1700000000)
     = Inr \<lparr>response = Render ''index.html'',
            flashes = [(''Too many login attempts, please try again later.'', ''danger'')],
            session_out = None, world_out = bob_world 5 1700000000\<rparr>"
  using lockout_never_expires [of "login_request ''bob'' ''secret''" "bob_world 5 1700000000"
      "''hash:secret''" "\<lparr>attempts = 5, last_attempt = 1700000000\<rparr>" Config
      "at_time 1800000000" toy_werkzeug]
  by (simp add: Config_def toy_werkzeug_def bob_def blank_request_def login_request_def
      at_time_def initial_world_def bob_world_def is_submitted_def get_user_password_def)

subsection \<open>The cooldown gate\<close>

text \<open>
  Claim C4, amended: for every identity (the session's user id when logged in, the
  remote address otherwise) and every POST request at time \<open>t2\<close> (in ms), with \<open>t1\<close> the
  identity's stored time (0 when there is none): if \<open>t2 - t1 < COOLDOWN_MS\<close> the request
  is answered with status 429 and the wait \<open>int(COOLDOWN_MS - (t2 - t1))\<close>, the remaining
  time truncated to whole milliseconds, which is at least 0 and less than one
  millisecond below the remaining time, and the dict is unchanged; if
  \<open>t2 - t1 \<ge> COOLDOWN_MS\<close> the request is admitted and \<open>t2\<close> is stored for the identity.
\<close>

theorem cooldown_gate:
  assumes post: "http_method req = ''POST''"
  shows "let t1 = (case lpt (identity_of req) of Some t \<Rightarrow> t | None \<Rightarrow> 0);
             t2 = clock * 1000;
             remaining = of_int (COOLDOWN_MS cfg) - (t2 - t1)
         in (t2 - t1 < of_int (COOLDOWN_MS cfg) \<longrightarrow>
               rate_limit_post_requests cfg clock req lpt
                 = (Some (Json (RateLimit \<lfloor>remaining\<rfloor>) 429), lpt)
               \<and> 0 \<le> \<lfloor>remaining\<rfloor>
               \<and> of_int \<lfloor>remaining\<rfloor> \<le> remaining
               \<and> remaining < of_int \<lfloor>remaining\<rfloor> + 1)
          \<and> (t2 - t1 \<ge> of_int (COOLDOWN_MS cfg) \<longrightarrow>
               rate_limit_post_requests cfg clock req lpt
                 = (None, lpt(identity_of req \<mapsto> t2)))"
  using post
  by (auto simp: rate_limit_post_requests_def Let_def py_int_def)

text \<open>
  Claim C4, amended, at concrete inputs: admitted at 1700000000 s, the address 10.0.0.1
  is denied half a second later with a wait of 500 ms, and admitted one second later.
\<close>

theorem cooldown_gate_witness:
  "http_method post_request = ''POST''
   \<and> rate_limit_post_requests Config (1700000000 + 1 / 2) post_request
        [RemoteAddr ''10.0.0.1'' \<mapsto> 1700000000000]
      = (Some (Json (RateLimit 500) 429), [RemoteAddr ''10.0.0.1'' \<mapsto> 1700000000000])
   \<and> rate_limit_post_requests Config 1700000001 post_request
        [RemoteAddr ''10.0.0.1'' \<mapsto> 1700000000000]
      = (None, [RemoteAddr ''10.0.0.1'' \<mapsto> 1700000001000])"
  using cooldown_gate [of post_request "[RemoteAddr ''10.0.0.1'' \<mapsto> 1700000000000]"
                          "1700000000 + 1 / 2" Config]
        cooldown_gate [of post_request "[RemoteAddr ''10.0.0.1'' \<mapsto> 1700000000000]"
                          "1700000001" Config]
  by (simp add: Config_def blank_request_def post_request_def identity_of_def)

text \<open>
  Claim C4 as stated says that the wait carried by the 429 response equals
  \<open>COOLDOWN_MS - (t2 - t1)\<close> and is positive. It fails where less than a millisecond
  remains: with \<open>t1 = 1700000000000\<close> and the clock at \<open>1700000000 + 1023/1024\<close> seconds,
  \<open>COOLDOWN_MS - (t2 - t1)\<close> is 125/128 ms, and the response carries the wait 0.
\<close>

theorem cooldown_gate_wait_counterexample:
  "http_method post_request = ''POST''
   \<and> rate_limit_post_requests Config (1700000000 + 1023 / 1024) post_request
        [RemoteAddr ''10.0.0.1'' \<mapsto> 1700000000000]
      = (Some (Json (RateLimit 0) 429), [RemoteAddr ''10.0.0.1'' \<mapsto> 1700000000000])
   \<and> real_of_int (COOLDOWN_MS Config)
        - ((1700000000 + 1023 / 1024) * 1000 - 1700000000000) = 125 / 128"
  by (simp add: rate_limit_post_requests_def identity_of_def py_int_def Let_def Config_def
      blank_request_def post_request_def)

subsection \<open>The upload check\<close>

text \<open>
  Claim C5, amended: an upload check at time \<open>now\<close> keeps exactly the stored timestamps
  \<open>t\<close> with \<open>now - UPLOAD_WINDOW < t\<close>, in their order: it discards those older than
  \<open>now - UPLOAD_WINDOW\<close> and also one that is exactly UPLOAD\_WINDOW old. It admits if and
  only if this pruned sequence has fewer than UPLOAD\_LIMIT entries; on admission \<open>now\<close>
  is appended to the pruned sequence and the result stored, and the response is not the
  429; on denial the response is the 429 and nothing is recorded. A timestamp at or
  before \<open>now - UPLOAD_WINDOW\<close> is never counted.

  The check runs in \<open>stream\<close> for a logged-in user posting on their own stream a form
  with a file whose extension is allowed.
\<close>

theorem upload_check_in_stream:
  assumes "session req = Some sid"
    and "get_user_data (users w) (Some uname) None = Some user"
    and "row_id user = sid"
    and "is_submitted req"
    and "post_image req = Some img"
    and "image_filename img = [] \<or> image_suffix img \<in> ALLOWED_EXTENSIONS cfg"
    and "image_present img"
  shows "let now = view_clock e;
             stored = history_of (upload_history w) sid;
             kept = filter (\<lambda>t. now - of_int (UPLOAD_WINDOW cfg) < t) stored;
             out = stream cfg e uname req w
         in prune cfg now stored = kept
          \<and> (\<forall>t \<in> set stored. t \<le> now - of_int (UPLOAD_WINDOW cfg) \<longrightarrow> t \<notin> set kept)
          \<and> (int (length kept) < UPLOAD_LIMIT cfg \<longrightarrow>
                upload_history (world_out out) = (upload_history w)(sid \<mapsto> kept @ [now])
              \<and> response out \<noteq> Json (TooManyUploads (UPLOAD_LIMIT cfg)) 429)
          \<and> (\<not> int (length kept) < UPLOAD_LIMIT cfg \<longrightarrow>
                response out = Json (TooManyUploads (UPLOAD_LIMIT cfg)) 429
              \<and> world_out out = w)"
proof -
  let ?now = "view_clock e"
  let ?stored = "history_of (upload_history w) sid"
  let ?kept = "filter (\<lambda>t. ?now - of_int (UPLOAD_WINDOW cfg) < t) ?stored"
  have same: "(\<lambda>t. ?now - t < of_int (UPLOAD_WINDOW cfg))
                = (\<lambda>t. ?now - of_int (UPLOAD_WINDOW cfg) < t)"
    by (rule ext) linarith
  have p: "prune cfg ?now ?stored = ?kept"
    unfolding prune_def same ..
  have a: "\<forall>t \<in> set ?stored. t \<le> ?now - of_int (UPLOAD_WINDOW cfg) \<longrightarrow> t \<notin> set ?kept"
    by auto
  have c: "upload_history (world_out (stream cfg e uname req w))
               = (upload_history w)(sid \<mapsto> ?kept @ [?now])
           \<and> response (stream cfg e uname req w)
               \<noteq> Json (TooManyUploads (UPLOAD_LIMIT cfg)) 429"
    if "int (length ?kept) < UPLOAD_LIMIT cfg"
  proof -
    from that p have "upload_check cfg ?now sid (upload_history w)
                        = Inr ((upload_history w)(sid \<mapsto> ?kept @ [?now]))"
      using upload_check_admit [of cfg ?now "upload_history w" sid] by simp
    with assms show ?thesis
      by (auto simp: stream_def Let_def reply_def split: prod.splits)
  qed
  have d: "response (stream cfg e uname req w) = Json (TooManyUploads (UPLOAD_LIMIT cfg)) 429
           \<and> world_out (stream cfg e uname req w) = w"
    if "\<not> int (length ?kept) < UPLOAD_LIMIT cfg"
  proof -
    from that p have "upload_check cfg ?now sid (upload_history w)
                        = Inl (Json (TooManyUploads (UPLOAD_LIMIT cfg)) 429)"
      using upload_check_deny [of cfg ?now "upload_history w" sid] by simp
    with assms show ?thesis
      by (auto simp: stream_def Let_def reply_def)
  qed
  from p a c d show ?thesis
    unfolding Let_def by blast
qed

text \<open>
  Claim C5, amended, at concrete inputs (window 60 s, limit 5): after bob's uploads at 0,
  10, 20, 30 and 40 s, an upload at 45 s is denied and the process state stays as it
  was; an upload at 61 s no longer counts the one at 0 s, is admitted and is recorded.
\<close>

theorem upload_check_in_stream_witness:
  "response (stream Config (at_time 1700000045) ''bob'' upload_request
               (run Config toy_werkzeug five_uploads (initial_world [bob] [] Map.empty)))
     = Json (TooManyUploads 5) 429
   \<and> world_out (stream Config (at_time 1700000045) ''bob'' upload_request
                  (run Config toy_werkzeug five_uploads (initial_world [bob] [] Map.empty)))
     = run Config toy_werkzeug five_uploads (initial_world [bob] [] Map.empty)
   \<and> upload_history (world_out (stream Config (at_time 1700000061) ''bob'' upload_request
                                  (run Config toy_werkzeug five_uploads (initial_world [bob] [] Map.empty))))
     = [1 \<mapsto> [1700000010, 1700000020, 1700000030, 1700000040, 1700000061]]
   \<and> response (stream Config (at_time 1700000061) ''bob'' upload_request
                 (run Config toy_werkzeug five_uploads (initial_world [bob] [] Map.empty)))
     \<noteq> Json (TooManyUploads 5) 429"
proof -
  let ?w = "run Config toy_werkzeug five_uploads (initial_world [bob] [] Map.empty)"
  have pre: "session upload_request = Some 1"
    "get_user_data (users ?w) (Some ''bob'') None = Some bob"
    "row_id bob = 1"
    "is_submitted upload_request"
    "post_image upload_request
       = Some \<lparr>image_present = True, image_filename = ''cat.png'', image_suffix = ''.png'',
               image_bytes = ''PNG''\<rparr>"
    unfolding five_uploads_world
    by (simp_all add: upload_request_def blank_request_def bob_def is_submitted_def
        get_user_data_def)
  have img: "image_filename \<lparr>image_present = True, image_filename = ''cat.png'',
                 image_suffix = ''.png'', image_bytes = ''PNG''\<rparr> = []
             \<or> image_suffix \<lparr>image_present = True, image_filename = ''cat.png'',
                 image_suffix = ''.png'', image_bytes = ''PNG''\<rparr> \<in> ALLOWED_EXTENSIONS Config"
    "image_present \<lparr>image_present = True, image_filename = ''cat.png'',
                 image_suffix = ''.png'', image_bytes = ''PNG''\<rparr>"
    by (simp_all add: Config_def)
  have hist: "history_of (upload_history ?w) 1
     = [1700000000, 1700000010, 1700000020, 1700000030, 1700000040]"
    "upload_history ?w = [1 \<mapsto> [1700000000, 1700000010, 1700000020, 1700000030, 1700000040]]"
    unfolding five_uploads_world by (simp_all add: history_of_def)
  have cfg: "UPLOAD_LIMIT Config = 5" "UPLOAD_WINDOW Config = 60"
    by (simp_all add: Config_def)
  have clocks: "view_clock (at_time 1700000045) = 1700000045"
    "view_clock (at_time 1700000061) = 1700000061"
    by (simp_all add: at_time_def)
  from upload_check_in_stream [OF pre img, where e = "at_time 1700000045"]
  have denied: "response (stream Config (at_time 1700000045) ''bob'' upload_request ?w)
       = Json (TooManyUploads 5) 429
     \<and> world_out (stream Config (at_time 1700000045) ''bob'' upload_request ?w) = ?w"
    by (simp add: Let_def hist history_of_def cfg clocks)
  from upload_check_in_stream [OF pre img, where e = "at_time 1700000061"]
  have admitted: "upload_history (world_out (stream Config (at_time 1700000061) ''bob''
                                  upload_request ?w))
       = [1 \<mapsto> [1700000010, 1700000020, 1700000030, 1700000040, 1700000061]]
     \<and> response (stream Config (at_time 1700000061) ''bob'' upload_request ?w)
       \<noteq> Json (TooManyUploads 5) 429"
    by (simp add: Let_def hist history_of_def cfg clocks)
  from denied admitted show ?thesis by simp
qed

text \<open>
  Claim C5 as stated says that the check discards the timestamps older than
  \<open>now - UPLOAD_WINDOW\<close> and admits if and only if what is left has fewer than
  UPLOAD\_LIMIT entries. It fails for a timestamp exactly UPLOAD\_WINDOW old: after bob's
  uploads at 0, 10, 20, 30 and 40 s, at 60 s none of the five stored timestamps is older
  than \<open>now - 60\<close>, so five entries are left and the claim denies; the code discards the
  one at 0 s, admits the upload and records it.
\<close>

theorem upload_check_boundary_counterexample:
  "history_of (upload_history (run Config toy_werkzeug five_uploads (initial_world [bob] [] Map.empty))) 1
     = [1700000000, 1700000010, 1700000020, 1700000030, 1700000040]
   \<and> filter (\<lambda>t. \<not> t < 1700000060 - real_of_int (UPLOAD_WINDOW Config))
        [1700000000, 1700000010, 1700000020, 1700000030, 1700000040]
     = [1700000000, 1700000010, 1700000020, 1700000030, 1700000040]
   \<and> \<not> int (length [1700000000, 1700000010, 1700000020, 1700000030, 1700000040 :: real])
         < UPLOAD_LIMIT Config
   \<and> response (handle_request Config toy_werkzeug (Stream ''bob'') (at_time 1700000060)
                 upload_request (run Config toy_werkzeug five_uploads (initial_world [bob] [] Map.empty)))
     = Redirect ''stream'' (Some ''bob'')
   \<and> history_of (upload_history (world_out
        (handle_request Config toy_werkzeug (Stream ''bob'') (at_time 1700000060)
           upload_request (run Config toy_werkzeug five_uploads (initial_world [bob] [] Map.empty))))) 1
     = [1700000010, 1700000020, 1700000030, 1700000040, 1700000060]"
  unfolding five_uploads_world
  by (simp add: handle_request_def rate_limit_post_requests_def identity_of_def py_int_def
      stream_def is_submitted_def get_user_data_def upload_check_def history_of_def
      prune_def create_post_def reply_def Let_def Config_def bob_def blank_request_def
      upload_request_def at_time_def)

subsection \<open>Denied checks write nothing to their dict\<close>

text \<open>
  Claim C6: a denied cooldown check leaves the identity's entry of \<open>last_post_times\<close>
  unchanged, and a denied upload check leaves the identity's sequence in
  \<open>upload_history\<close> unchanged; only admitted checks change their dict.

  Stated for the hook and the view on their own and for a whole request, in any process
  state: a denial leaves the whole dict as it was, and a dict that has changed means the
  check admitted the request (the pruned sequence was below the limit) and the response
  is not a denial.
\<close>

theorem denied_checks_leave_state:
  "(fst (rate_limit_post_requests cfg clock req lpt) \<noteq> None \<longrightarrow>
      snd (rate_limit_post_requests cfg clock req lpt) = lpt)
   \<and> (response (stream cfg e uname req w) = Json b n \<longrightarrow>
      upload_history (world_out (stream cfg e uname req w)) = upload_history w)
   \<and> (response (handle_request cfg lib rt e req w) = Json (RateLimit k) n \<longrightarrow>
      last_post_times (world_out (handle_request cfg lib rt e req w)) = last_post_times w)
   \<and> (response (handle_request cfg lib rt e req w) = Json (TooManyUploads k) n \<longrightarrow>
      upload_history (world_out (handle_request cfg lib rt e req w)) = upload_history w)
   \<and> (snd (rate_limit_post_requests cfg clock req lpt) \<noteq> lpt \<longrightarrow>
      fst (rate_limit_post_requests cfg clock req lpt) = None)
   \<and> (upload_history (world_out (stream cfg e uname req w)) \<noteq> upload_history w \<longrightarrow>
      (\<exists>sid. session req = Some sid
         \<and> int (length (prune cfg (view_clock e) (history_of (upload_history w) sid)))
              < UPLOAD_LIMIT cfg)
      \<and> (\<forall>b' n'. response (stream cfg e uname req w) \<noteq> Json b' n'))"
proof -
  have a: "fst (rate_limit_post_requests cfg clock req lpt) \<noteq> None \<longrightarrow>
      snd (rate_limit_post_requests cfg clock req lpt) = lpt"
    by (simp add: rate_limit_post_requests_def Let_def)
  have b: "response (stream cfg e uname req w) = Json b n \<longrightarrow>
      upload_history (world_out (stream cfg e uname req w)) = upload_history w"
    using stream_denied [of cfg e uname req w b n] by simp
  have c: "response (handle_request cfg lib rt e req w) = Json (RateLimit k) n \<longrightarrow>
      last_post_times (world_out (handle_request cfg lib rt e req w)) = last_post_times w"
    using handle_request_json [of cfg lib rt e req w "RateLimit k" n] by auto
  have d: "response (handle_request cfg lib rt e req w) = Json (TooManyUploads k) n \<longrightarrow>
      upload_history (world_out (handle_request cfg lib rt e req w)) = upload_history w"
    using handle_request_json [of cfg lib rt e req w "TooManyUploads k" n] by auto
  have f: "upload_history (world_out (stream cfg e uname req w)) \<noteq> upload_history w \<longrightarrow>
      (\<exists>sid. session req = Some sid
         \<and> int (length (prune cfg (view_clock e) (history_of (upload_history w) sid)))
              < UPLOAD_LIMIT cfg)
      \<and> (\<forall>b' n'. response (stream cfg e uname req w) \<noteq> Json b' n')"
    using stream_upload_history [of cfg e uname req w] by blast
  have g: "snd (rate_limit_post_requests cfg clock req lpt) \<noteq> lpt \<longrightarrow>
      fst (rate_limit_post_requests cfg clock req lpt) = None"
    by (simp add: rate_limit_post_requests_def Let_def)
  from a b c d g f show ?thesis by (intro conjI)
qed

text \<open>
  Claim C6 at concrete inputs: a POST denied by the cooldown leaves \<open>last_post_times\<close>
  alone, so the next check is timed against the admission before the denial; an upload
  denied by the quota leaves \<open>upload_history\<close> alone; an admitted upload changes it.
\<close>

theorem denied_checks_leave_state_witness:
  "rate_limit_post_requests Config (1700000000 + 1 / 2) post_request
      (last_post_times cooled_world)
     = (Some (Json (RateLimit 500) 429), last_post_times cooled_world)
   \<and> rate_limit_post_requests Config 1700000001 post_request
      (snd (rate_limit_post_requests Config (1700000000 + 1 / 2) post_request
              (last_post_times cooled_world)))
     = (None, [RemoteAddr ''10.0.0.1'' \<mapsto> 1700000001000])
   \<and> response (handle_request Config toy_werkzeug Elsewhere (at_time (1700000000 + 1 / 2))
                 post_request cooled_world)
     = Json (RateLimit 500) 429
   \<and> last_post_times (world_out (handle_request Config toy_werkzeug Elsewhere
                                    (at_time (1700000000 + 1 / 2)) post_request cooled_world))
     = last_post_times cooled_world
   \<and> response (stream Config (at_time 1700000045) ''bob'' upload_request quota_world)
     = Json (TooManyUploads 5) 429
   \<and> upload_history (world_out (stream Config (at_time 1700000045) ''bob'' upload_request
                                  quota_world))
     = upload_history quota_world
   \<and> response (handle_request Config toy_werkzeug (Stream ''bob'') (at_time 1700000045)
                 upload_request quota_world)
     = Json (TooManyUploads 5) 429
   \<and> upload_history (world_out (handle_request Config toy_werkzeug (Stream ''bob'')
                                   (at_time 1700000045) upload_request quota_world))
     = upload_history quota_world
   \<and> upload_history (world_out (stream Config (at_time 1700000061) ''bob'' upload_request
                                  quota_world))
     \<noteq> upload_history quota_world
   \<and> response (stream Config (at_time 1700000061) ''bob'' upload_request quota_world)
     \<noteq> Json (TooManyUploads 5) 429"
proof -
  note defs =
    handle_request_def rate_limit_post_requests_def identity_of_def py_int_def
    stream_def is_submitted_def get_user_data_def upload_check_def history_of_def
    prune_def create_post_def reply_def Let_def Config_def toy_werkzeug_def bob_def
    blank_request_def post_request_def upload_request_def at_time_def initial_world_def
    quota_world_def cooled_world_def
  have hook: "rate_limit_post_requests Config (1700000000 + 1 / 2) post_request
      (last_post_times cooled_world)
      = (Some (Json (RateLimit 500) 429), last_post_times cooled_world)"
    by (simp add: defs)
  have again: "rate_limit_post_requests Config 1700000001 post_request
      (last_post_times cooled_world) = (None, [RemoteAddr ''10.0.0.1'' \<mapsto> 1700000001000])"
    by (simp add: defs)
  have limited: "response (handle_request Config toy_werkzeug Elsewhere
      (at_time (1700000000 + 1 / 2)) post_request cooled_world) = Json (RateLimit 500) 429"
    by (simp add: defs)
  have denied: "response (stream Config (at_time 1700000045) ''bob'' upload_request quota_world)
      = Json (TooManyUploads 5) 429"
    by (simp add: defs)
  have denied': "response (handle_request Config toy_werkzeug (Stream ''bob'')
      (at_time 1700000045) upload_request quota_world) = Json (TooManyUploads 5) 429"
    by (simp add: defs)
  have admitted: "upload_history (world_out (stream Config (at_time 1700000061) ''bob''
      upload_request quota_world)) \<noteq> upload_history quota_world"
    by (simp add: defs fun_eq_iff)
  note at_denial = denied_checks_leave_state [where cfg = Config and lib = toy_werkzeug
      and clock = "1700000000 + 1 / 2" and lpt = "last_post_times cooled_world"
      and req = upload_request and e = "at_time 1700000045" and uname = "''bob''"
      and w = quota_world and rt = "Stream ''bob''" and b = "TooManyUploads 5" and k = 5
      and n = 429]
  note at_limit = denied_checks_leave_state [where cfg = Config and lib = toy_werkzeug
      and req = post_request and e = "at_time (1700000000 + 1 / 2)" and w = cooled_world
      and rt = Elsewhere and k = 500 and n = 429]
  note at_admission = denied_checks_leave_state [where cfg = Config
      and req = upload_request and e = "at_time 1700000061" and uname = "''bob''"
      and w = quota_world]
  from at_denial denied denied'
  have u: "upload_history (world_out (stream Config (at_time 1700000045) ''bob'' upload_request
                                  quota_world)) = upload_history quota_world"
    and u': "upload_history (world_out (handle_request Config toy_werkzeug (Stream ''bob'')
               (at_time 1700000045) upload_request quota_world)) = upload_history quota_world"
    by blast+
  from at_limit limited
  have l: "last_post_times (world_out (handle_request Config toy_werkzeug Elsewhere
             (at_time (1700000000 + 1 / 2)) post_request cooled_world))
           = last_post_times cooled_world"
    by blast
  from at_admission admitted
  have r: "response (stream Config (at_time 1700000061) ''bob'' upload_request quota_world)
     \<noteq> Json (TooManyUploads 5) 429"
    by blast
  from hook again limited denied denied' admitted u u' l r show ?thesis
    by simp
qed

subsection \<open>The upload history stays bounded\<close>

text \<open>
  Claim C7: after any sequence of requests from a start with empty dicts, for every
  identity the number of stored upload timestamps in any trailing interval of
  UPLOAD\_WINDOW seconds is at most UPLOAD\_LIMIT; in particular the sequence pruned at
  the next check has at most UPLOAD\_LIMIT entries.

  The limit is a count, so it is taken to be at least 0. The stored sequence as a whole
  never has more than UPLOAD\_LIMIT entries.
\<close>

theorem upload_history_bounded:
  assumes "0 \<le> UPLOAD_LIMIT cfg"
  shows "let ts = history_of (upload_history (run cfg lib evs (initial_world us ps fs))) uid
         in int (length ts) \<le> UPLOAD_LIMIT cfg
          \<and> int (length (filter (\<lambda>t. a - of_int (UPLOAD_WINDOW cfg) < t \<and> t \<le> a) ts))
              \<le> UPLOAD_LIMIT cfg
          \<and> int (length (prune cfg now ts)) \<le> UPLOAD_LIMIT cfg"
proof -
  let ?ts = "history_of (upload_history (run cfg lib evs (initial_world us ps fs))) uid"
  from assms have "bounded_history cfg (upload_history (initial_world us ps fs))"
    by (simp add: bounded_history_def initial_world_def history_of_def)
  then have "bounded_history cfg (upload_history (run cfg lib evs (initial_world us ps fs)))"
    by (rule run_bounded)
  then have len: "int (length ?ts) \<le> UPLOAD_LIMIT cfg"
    by (simp add: bounded_history_def)
  have win: "int (length (filter (\<lambda>t. a - of_int (UPLOAD_WINDOW cfg) < t \<and> t \<le> a) ?ts))
               \<le> UPLOAD_LIMIT cfg"
    by (rule order_trans [OF _ len]) simp
  have pruned: "int (length (prune cfg now ?ts)) \<le> UPLOAD_LIMIT cfg"
    by (rule order_trans [OF _ len]) (simp add: length_prune)
  from len win pruned show ?thesis
    unfolding Let_def by (intro conjI)
qed

text \<open>
  Claim C7 at a concrete run (window 60 s, limit 5): of bob's uploads at 0, 10, 20, 30,
  40, 45 and 61 s the one at 45 s is denied, and five timestamps are on record at the end.
\<close>

theorem upload_history_bounded_witness:
  "0 \<le> UPLOAD_LIMIT Config
   \<and> history_of (upload_history
        (run Config toy_werkzeug uploads_run (initial_world [bob] [] Map.empty))) 1
     = [1700000010, 1700000020, 1700000030, 1700000040, 1700000061]
   \<and> int (length (history_of (upload_history
        (run Config toy_werkzeug uploads_run (initial_world [bob] [] Map.empty))) 1))
     \<le> UPLOAD_LIMIT Config
   \<and> int (length (prune Config 1700000070 (history_of (upload_history
        (run Config toy_werkzeug uploads_run (initial_world [bob] [] Map.empty))) 1)))
     \<le> UPLOAD_LIMIT Config"
proof -
  note defs =
    handle_request_def rate_limit_post_requests_def identity_of_def py_int_def
    stream_def is_submitted_def get_user_data_def upload_check_def history_of_def
    prune_def create_post_def reply_def Let_def Config_def toy_werkzeug_def bob_def
    blank_request_def upload_request_def at_time_def initial_world_def uploads_run_def
  have lim: "0 \<le> UPLOAD_LIMIT Config"
    by (simp add: Config_def)
  have hist: "history_of (upload_history
        (run Config toy_werkzeug uploads_run (initial_world [bob] [] Map.empty))) 1
     = [1700000010, 1700000020, 1700000030, 1700000040, 1700000061]"
    by (simp add: defs)
  from upload_history_bounded [OF lim, of toy_werkzeug uploads_run "[bob]" "[]" Map.empty 1
      1700000070 1700000070] lim hist
  show ?thesis by (simp add: Let_def)
qed

subsection \<open>A successful login\<close>



subsection \<open>The lockout branch is dead\<close>

text \<open>
  Claim C9: no request writes a nonzero attempts value (the only write stores 0), so from
  a start with empty dicts every record of \<open>login_attempts\<close> has attempts 0 in every
  reachable state; consequently, for MAX\_LOGIN\_ATTEMPTS at least 1, the lockout branch
  is never taken and no login is ever denied for too many attempts.

  First conjunct: in any process state, a record found after a request is the record
  that was there before or has attempts 0. Second: after any run from the start the
  count reads 0 for every username. Third: the test of line 92 is then false and no
  request is answered with the too-many-attempts warning.
\<close>

theorem lockout_is_unreachable:
  "(login_attempts (world_out (handle_request cfg lib rt e req w)) u = Some r \<longrightarrow>
      login_attempts w u = Some r \<or> attempts r = 0)
   \<and> get_attempts (login_attempts (run cfg lib evs (initial_world us ps fs))) u = 0
   \<and> (1 \<le> MAX_LOGIN_ATTEMPTS cfg \<longrightarrow>
        \<not> MAX_LOGIN_ATTEMPTS cfg
            \<le> get_attempts (login_attempts (run cfg lib evs (initial_world us ps fs))) u
      \<and> (''Too many login attempts, please try again later.'', ''danger'')
          \<notin> set (flashes (handle_request cfg lib rt' e' req'
                             (run cfg lib evs (initial_world us ps fs)))))"
proof -
  let ?w = "run cfg lib evs (initial_world us ps fs)"
  have step: "login_attempts (world_out (handle_request cfg lib rt e req w)) u = Some r \<longrightarrow>
      login_attempts w u = Some r \<or> attempts r = 0"
    using handle_request_login_attempts [of cfg lib rt e req w]
    by (auto split: if_splits)
  have "login_attempts (initial_world us ps fs) = Map.empty"
    by (simp add: initial_world_def)
  then have empty: "login_attempts ?w = Map.empty"
    by (rule run_login_attempts_empty)
  then have zero: "\<And>v. get_attempts (login_attempts ?w) v = 0"
    by (simp add: get_attempts_def)
  have "(''Too many login attempts, please try again later.'', ''danger'')
          \<notin> set (flashes (handle_request cfg lib rt' e' req' ?w))"
    if "1 \<le> MAX_LOGIN_ATTEMPTS cfg"
  proof
    assume "(''Too many login attempts, please try again later.'', ''danger'')
          \<in> set (flashes (handle_request cfg lib rt' e' req' ?w))"
    from handle_request_too_many [OF this] zero that show False by auto
  qed
  with step zero show ?thesis by auto
qed

text \<open>
  Claim C9 at concrete inputs: the one write, made on a record whose \<open>last_attempt\<close>
  lies 3600 s ahead of the clock, stores attempts 0; and after five failed logins from
  the start bob's count reads 0 and a sixth failed login gets the wrong-password warning.
\<close>

theorem lockout_is_unreachable_witness:
  "login_attempts (world_out (handle_request Config toy_werkzeug Index (at_time 1700000000)
                               (login_request ''bob'' ''secret'')
                               (bob_world 5 (1700000000 + 3600)))) ''bob''
     = Some \<lparr>attempts = 0, last_attempt = 0\<rparr>
   \<and> 1 \<le> MAX_LOGIN_ATTEMPTS Config
   \<and> get_attempts (login_attempts
        (run Config toy_werkzeug failed_logins (initial_world [bob] [] Map.empty))) ''bob'' = 0
   \<and> flashes (handle_request Config toy_werkzeug Index (at_time 1700000010)
                (login_request ''bob'' ''wrong'')
                (run Config toy_werkzeug failed_logins (initial_world [bob] [] Map.empty)))
     = [(''Wrong username or password!'', ''warning'')]
   \<and> (''Too many login attempts, please try again later.'', ''danger'')
       \<notin> set (flashes (handle_request Config toy_werkzeug Index (at_time 1700000010)
                (login_request ''bob'' ''wrong'')
                (run Config toy_werkzeug failed_logins (initial_world [bob] [] Map.empty))))"
proof -
  note defs =
    handle_request_def rate_limit_post_requests_def identity_of_def py_int_def
    index_def is_submitted_def get_user_password_def get_user_id_def get_attempts_def
    reply_def Let_def Config_def toy_werkzeug_def bob_def blank_request_def
    login_request_def at_time_def initial_world_def bob_world_def failed_logins_def
  have reset: "login_attempts (world_out (handle_request Config toy_werkzeug Index
      (at_time 1700000000) (login_request ''bob'' ''secret'')
      (bob_world 5 (1700000000 + 3600)))) ''bob'' = Some \<lparr>attempts = 0, last_attempt = 0\<rparr>"
    by (simp add: defs)
  have lim: "1 \<le> MAX_LOGIN_ATTEMPTS Config"
    by (simp add: Config_def)
  have sixth: "flashes (handle_request Config toy_werkzeug Index (at_time 1700000010)
                (login_request ''bob'' ''wrong'')
                (run Config toy_werkzeug failed_logins (initial_world [bob] [] Map.empty)))
     = [(''Wrong username or password!'', ''warning'')]"
    by (simp add: defs)
  from lockout_is_unreachable [where cfg = Config and lib = toy_werkzeug and rt = Index
      and e = "at_time 1700000000" and req = "login_request ''bob'' ''secret''"
      and w = "bob_world 5 (1700000000 + 3600)" and u = "''bob''"
      and r = "\<lparr>attempts = 0, last_attempt = 0\<rparr>" and evs = failed_logins
      and us = "[bob]" and ps = "[]" and fs = Map.empty and rt' = Index
      and e' = "at_time 1700000010" and req' = "login_request ''bob'' ''wrong''"]
    reset lim sixth
  show ?thesis by simp
qed

subsection \<open>A denied upload writes nothing\<close>

text \<open>
  Claim C10: when the upload check denies a request with the 429 "Too many uploads"
  response, the handler returns before the file is saved and the post is created: no
  file is written to the uploads folder and no row is added to Posts.

  The view function leaves the whole process state as it was; over the whole request
  only the cooldown hook's entry in \<open>last_post_times\<close> has changed.
\<close>

theorem denied_upload_writes_nothing:
  "(response (stream cfg e uname req w) = Json (TooManyUploads k) n \<longrightarrow>
      world_out (stream cfg e uname req w) = w
      \<and> session_out (stream cfg e uname req w) = session req
      \<and> flashes (stream cfg e uname req w) = [])
   \<and> (response (handle_request cfg lib rt e req w) = Json (TooManyUploads k) n \<longrightarrow>
      uploads (world_out (handle_request cfg lib rt e req w)) = uploads w
      \<and> posts (world_out (handle_request cfg lib rt e req w)) = posts w
      \<and> users (world_out (handle_request cfg lib rt e req w)) = users w
      \<and> upload_history (world_out (handle_request cfg lib rt e req w)) = upload_history w
      \<and> login_attempts (world_out (handle_request cfg lib rt e req w)) = login_attempts w)"
proof -
  have a: "response (stream cfg e uname req w) = Json (TooManyUploads k) n \<longrightarrow>
      world_out (stream cfg e uname req w) = w
      \<and> session_out (stream cfg e uname req w) = session req
      \<and> flashes (stream cfg e uname req w) = []"
    using stream_denied [of cfg e uname req w "TooManyUploads k" n] by simp
  have b: "response (handle_request cfg lib rt e req w) = Json (TooManyUploads k) n \<longrightarrow>
      uploads (world_out (handle_request cfg lib rt e req w)) = uploads w
      \<and> posts (world_out (handle_request cfg lib rt e req w)) = posts w
      \<and> users (world_out (handle_request cfg lib rt e req w)) = users w
      \<and> upload_history (world_out (handle_request cfg lib rt e req w)) = upload_history w
      \<and> login_attempts (world_out (handle_request cfg lib rt e req w)) = login_attempts w"
    using handle_request_json [of cfg lib rt e req w "TooManyUploads k" n] by auto
  from a b show ?thesis by blast
qed

text \<open>
  Claim C10 at concrete inputs: bob's upload at 45 s is denied, and the uploads folder
  and the table Posts are as empty as before; his upload at 61 s is admitted, and the
  file and the post are there.
\<close>

theorem denied_upload_writes_nothing_witness:
  "response (stream Config (at_time 1700000045) ''bob'' upload_request quota_world)
     = Json (TooManyUploads 5) 429
   \<and> world_out (stream Config (at_time 1700000045) ''bob'' upload_request quota_world)
     = quota_world
   \<and> response (handle_request Config toy_werkzeug (Stream ''bob'') (at_time 1700000045)
                 upload_request quota_world)
     = Json (TooManyUploads 5) 429
   \<and> uploads (world_out (handle_request Config toy_werkzeug (Stream ''bob'')
                            (at_time 1700000045) upload_request quota_world)) = Map.empty
   \<and> posts (world_out (handle_request Config toy_werkzeug (Stream ''bob'')
                          (at_time 1700000045) upload_request quota_world)) = []
   \<and> uploads (world_out (handle_request Config toy_werkzeug (Stream ''bob'')
                            (at_time 1700000061) upload_request quota_world))
     = [''uploads/cat.png'' \<mapsto> ''PNG'']
   \<and> posts (world_out (handle_request Config toy_werkzeug (Stream ''bob'')
                          (at_time 1700000061) upload_request quota_world))
     = [\<lparr>u_id = 1, content = ''hello'', image = ''cat.png''\<rparr>]"
proof -
  note defs =
    handle_request_def rate_limit_post_requests_def identity_of_def py_int_def
    stream_def is_submitted_def get_user_data_def upload_check_def history_of_def
    prune_def create_post_def reply_def Let_def Config_def toy_werkzeug_def bob_def
    blank_request_def upload_request_def at_time_def initial_world_def quota_world_def
  have denied: "response (stream Config (at_time 1700000045) ''bob'' upload_request quota_world)
      = Json (TooManyUploads 5) 429"
    by (simp add: defs)
  have denied': "response (handle_request Config toy_werkzeug (Stream ''bob'')
      (at_time 1700000045) upload_request quota_world) = Json (TooManyUploads 5) 429"
    by (simp add: defs)
  have before: "uploads quota_world = Map.empty" "posts quota_world = []"
    by (simp_all add: defs)
  have later: "uploads (world_out (handle_request Config toy_werkzeug (Stream ''bob'')
                            (at_time 1700000061) upload_request quota_world))
     = [''uploads/cat.png'' \<mapsto> ''PNG'']"
    "posts (world_out (handle_request Config toy_werkzeug (Stream ''bob'')
                          (at_time 1700000061) upload_request quota_world))
     = [\<lparr>u_id = 1, content = ''hello'', image = ''cat.png''\<rparr>]"
    by (simp_all add: defs)
  from denied_upload_writes_nothing [where cfg = Config and lib = toy_werkzeug
      and e = "at_time 1700000045" and uname = "''bob''" and req = upload_request
      and w = quota_world and rt = "Stream ''bob''" and k = 5 and n = 429]
    denied denied' before later
  show ?thesis by simp
qed

end
